theory Spec2Isabelle
  imports Main "HOL-Library.AList"
begin

section \<open>Python values and exceptions\<close>

text \<open>
  The module is Python. A raised exception is a value: its class and its \<open>args\<close> tuple.
  The classes are the built-in ones that the modelled functions raise or name in an
  \<open>except\<close> clause, each with its method resolution order, so that an \<open>except\<close>
  clause matches subclasses the way Python does.
\<close>

datatype pyval = PNone | PStr string | PInt int | PTuple "pyval list"

datatype exc_class =
    BaseException | Exception | ValueError | RuntimeError | AttributeError
  | TypeError | LookupError | IndexError | KeyError | OSError | FileNotFoundError
  | InvalidDicomError

datatype pyexc = Exc (cls: exc_class) (args: "pyval list")

fun mro :: "exc_class \<Rightarrow> exc_class list" where
  "mro BaseException = [BaseException]"
| "mro Exception = [Exception, BaseException]"
| "mro ValueError = [ValueError, Exception, BaseException]"
| "mro RuntimeError = [RuntimeError, Exception, BaseException]"
| "mro AttributeError = [AttributeError, Exception, BaseException]"
| "mro TypeError = [TypeError, Exception, BaseException]"
| "mro LookupError = [LookupError, Exception, BaseException]"
| "mro IndexError = [IndexError, LookupError, Exception, BaseException]"
| "mro KeyError = [KeyError, LookupError, Exception, BaseException]"
| "mro OSError = [OSError, Exception, BaseException]"
| "mro FileNotFoundError = [FileNotFoundError, OSError, Exception, BaseException]"
| "mro InvalidDicomError = [InvalidDicomError, Exception, BaseException]"

definition isinstance :: "pyexc \<Rightarrow> exc_class \<Rightarrow> bool" where
  "isinstance e c = (c \<in> set (mro (cls e)))"

text \<open>\<open>except (c1, c2, ...)\<close>: the clause catches an instance of any listed class.\<close>

definition catches :: "exc_class list \<Rightarrow> pyexc \<Rightarrow> bool" where
  "catches cs e = list_ex (isinstance e) cs"

section \<open>The characteristics catalogue and the lookup\<close>

text \<open>
  \<open>characteristics_config\<close> is the list loaded from \<open>characteristics.json\<close>: each
  entry has a \<open>ConceptNameCodeSequence\<close> code and a list of \<open>choices\<close>, every code
  being a dictionary with the keys \<open>CodeValue\<close>, \<open>CodingSchemeDesignator\<close> and
  \<open>CodeMeaning\<close>. The records fix these keys, so a catalogue lacking one of them
  (a \<open>KeyError\<close> in the source) is outside the model.
\<close>

record code =
  CodeValue :: string
  CodingSchemeDesignator :: string
  CodeMeaning :: string

record characteristic =
  ConceptNameCodeSequence :: code
  choices :: "code list"

text \<open>
  The dictionary that the lookup returns: \<open>concept_name_code\<close> is its key
  \<open>'ConceptNameCodeSequence'\<close>, \<open>concept_code\<close> its key \<open>'ConceptCodeSequence'\<close>.
\<close>

record characteristics =
  concept_name_code :: code
  concept_code :: code

text \<open>
  The two nested \<open>for\<close> loops of \<open>_find_characteristics_from_concept_name_and_choice\<close>:
  the inner loop returns at the first choice whose meaning is the label; when an entry
  with the concept name has no such choice, the outer loop goes on to the next entry.
\<close>

fun find_in_config :: "string \<Rightarrow> string \<Rightarrow> characteristic list \<Rightarrow> characteristics option" where
  "find_in_config concept_name choice_label [] = None"
| "find_in_config concept_name choice_label (i # rest) =
     (if CodeMeaning (ConceptNameCodeSequence i) = concept_name then
        (case List.find (\<lambda>j. CodeMeaning j = choice_label) (choices i) of
           Some j \<Rightarrow> Some \<lparr>concept_name_code = ConceptNameCodeSequence i, concept_code = j\<rparr>
         | None \<Rightarrow> find_in_config concept_name choice_label rest)
      else find_in_config concept_name choice_label rest)"

definition not_found_message :: "string \<Rightarrow> string \<Rightarrow> string" where
  "not_found_message concept_name choice_label =
     ''Concept name code (CodeMeaning='' @ concept_name @ '') with choices '' @ choice_label
       @ '' not found''"

text \<open>
  \<open>Inr None\<close> is the returned \<open>None\<close>, \<open>Inr (Some c)\<close> the returned dictionary,
  \<open>Inl e\<close> the raised exception.
\<close>

definition find_characteristics_from_concept_name_and_choice ::
  "string \<Rightarrow> string \<Rightarrow> characteristic list \<Rightarrow> pyexc + characteristics option" where
  "find_characteristics_from_concept_name_and_choice concept_name choice_label characteristics_config =
     (if choice_label = ''N/A'' then Inr None
      else (case find_in_config concept_name choice_label characteristics_config of
              Some c \<Rightarrow> Inr (Some c)
            | None \<Rightarrow> Inl (Exc ValueError [PStr (not_found_message concept_name choice_label)])))"

text \<open>An entry that answers a lookup: it has the concept name and offers the label.\<close>

definition offers :: "string \<Rightarrow> string \<Rightarrow> characteristic \<Rightarrow> bool" where
  "offers concept_name choice_label i =
     (CodeMeaning (ConceptNameCodeSequence i) = concept_name
      \<and> list_ex (\<lambda>j. CodeMeaning j = choice_label) (choices i))"

text \<open>The first entry of the catalogue with a given concept name, whatever its choices.\<close>

fun first_with_concept_name :: "string \<Rightarrow> characteristic list \<Rightarrow> characteristic option" where
  "first_with_concept_name concept_name [] = None"
| "first_with_concept_name concept_name (i # rest) =
     (if CodeMeaning (ConceptNameCodeSequence i) = concept_name then Some i
      else first_with_concept_name concept_name rest)"

subsection \<open>Example catalogues\<close>

definition shape_code :: code where
  "shape_code = \<lparr>CodeValue = ''C1'', CodingSchemeDesignator = ''99QR'', CodeMeaning = ''Shape''\<rparr>"

definition shape_code_2 :: code where
  "shape_code_2 = \<lparr>CodeValue = ''C2'', CodingSchemeDesignator = ''99QR'', CodeMeaning = ''Shape''\<rparr>"

definition round_code :: code where
  "round_code = \<lparr>CodeValue = ''A'', CodingSchemeDesignator = ''99QR'', CodeMeaning = ''Round''\<rparr>"

definition irregular_code :: code where
  "irregular_code = \<lparr>CodeValue = ''B'', CodingSchemeDesignator = ''99QR'', CodeMeaning = ''Irregular''\<rparr>"

definition shape_catalog :: "characteristic list" where
  "shape_catalog = [\<lparr>ConceptNameCodeSequence = shape_code, choices = [round_code, irregular_code]\<rparr>]"

text \<open>A catalogue in which two entries carry the concept name \<open>Shape\<close>.\<close>

definition duplicate_catalog :: "characteristic list" where
  "duplicate_catalog =
     [\<lparr>ConceptNameCodeSequence = shape_code, choices = [round_code]\<rparr>,
      \<lparr>ConceptNameCodeSequence = shape_code_2, choices = [irregular_code]\<rparr>]"

section \<open>The segment characteristics store\<close>

text \<open>
  \<open>self.segment_characteristics\<close> is a dictionary from a segment's label value (an
  integer) to that segment's dictionary from concept name to choice label. Python
  dictionaries keep insertion order, and \<open>items()\<close> walks them in that order, so both
  are association lists: a dictionary has each key once, which is
  \<open>distinct (map fst d)\<close>; lookups go through \<open>map_of\<close>.
\<close>

type_synonym characteristics_entry = "(string \<times> string) list"

type_synonym characteristics_store = "(int \<times> characteristics_entry) list"

text \<open>A segment of the segmentation node, as far as this module reads it.\<close>

record segment =
  GetName :: string
  GetLabelValue :: int

text \<open>
  Lines 616 to 618 of \<open>updateSegmentationCharacteristics\<close>: the dictionary
  comprehension keeps the items whose key is among the label values of the segments.
\<close>

definition prune_segment_characteristics ::
  "int list \<Rightarrow> characteristics_store \<Rightarrow> characteristics_store" where
  "prune_segment_characteristics segment_ids sc = filter (\<lambda>(s, c). s \<in> set segment_ids) sc"

text \<open>
  Lines 620 to 626: every segment without an entry gets the empty dictionary. (The
  labels and buttons that the loop also creates are user interface only.)
\<close>

fun create_missing_entries :: "segment list \<Rightarrow> characteristics_store \<Rightarrow> characteristics_store" where
  "create_missing_entries [] sc = sc"
| "create_missing_entries (seg # rest) sc =
     create_missing_entries rest
       (if GetLabelValue seg \<in> fst ` set sc then sc else sc @ [(GetLabelValue seg, [])])"

definition updateSegmentationCharacteristics ::
  "segment list \<Rightarrow> characteristics_store \<Rightarrow> characteristics_store" where
  "updateSegmentationCharacteristics segments sc =
     create_missing_entries segments
       (prune_segment_characteristics (map GetLabelValue segments) sc)"

section \<open>DICOM datasets and files\<close>

text \<open>
  A \<open>pydicom\<close> dataset holds data elements by keyword. An element is either a plain
  value, kept as text, or a sequence of datasets; the two kinds are kept apart, so a
  sequence attribute such as \<open>ContentSequence\<close> is always a list of datasets.
  \<open>len(ds)\<close> counts the elements.
\<close>

datatype dataset = Dataset (strs: "(string \<times> string) list") (seqs: "(string \<times> dataset list) list")

definition len_dataset :: "dataset \<Rightarrow> nat" where
  "len_dataset ds = length (strs ds) + length (seqs ds)"

text \<open>
  Reading a sequence attribute: an attribute that the dataset lacks raises
  \<open>AttributeError\<close>. (The message is the library's; the model keeps the name.)
\<close>

definition get_seq :: "string \<Rightarrow> dataset \<Rightarrow> pyexc + dataset list" where
  "get_seq name ds =
     (case map_of (seqs ds) name of
        None \<Rightarrow> Inl (Exc AttributeError [PStr name])
      | Some s \<Rightarrow> Inr s)"

definition set_seq :: "string \<Rightarrow> dataset list \<Rightarrow> dataset \<Rightarrow> dataset" where
  "set_seq name s ds = Dataset (strs ds) (AList.update name s (seqs ds))"

datatype file_content = Dicom dataset | NonDicom

type_synonym file_system = "string \<Rightarrow> file_content option"

definition dcmread :: "file_system \<Rightarrow> string \<Rightarrow> pyexc + dataset" where
  "dcmread fs path =
     (case fs path of
        None \<Rightarrow> Inl (Exc FileNotFoundError [PStr path])
      | Some NonDicom \<Rightarrow> Inl (Exc InvalidDicomError [PStr path])
      | Some (Dicom ds) \<Rightarrow> Inr ds)"

definition code_dataset :: "code \<Rightarrow> dataset" where
  "code_dataset c =
     Dataset [(''CodeValue'', CodeValue c),
              (''CodingSchemeDesignator'', CodingSchemeDesignator c),
              (''CodeMeaning'', CodeMeaning c)] []"

definition create_dataset_from_characteristics :: "characteristics \<Rightarrow> dataset" where
  "create_dataset_from_characteristics characteristics_dict =
     Dataset [(''RelationshipType'', ''CONTAINS''), (''ValueType'', ''CODE'')]
             [(''ConceptNameCodeSequence'', [code_dataset (concept_name_code characteristics_dict)]),
              (''ConceptCodeSequence'', [code_dataset (concept_code characteristics_dict)])]"

section \<open>The widget, its collaborators and the report\<close>

record exporter =
  tempDir :: string
  currentDateTime :: string

text \<open>Calls on collaborators that leave no other trace in the state.\<close>

datatype call = ExporterCleanup exporter | DatabaseInsert string | IndexerAddFile string

text \<open>
  The attributes of the widget that the report functions read and write, the files on
  disk, and the log of collaborator calls.
\<close>

record qr_state =
  segment_characteristics :: characteristics_store
  characteristics_config :: "characteristic list"
  dicomSegmentationExporter :: "exporter option"
  metadata :: "(string \<times> string) list option"
  files :: file_system
  calls :: "call list"

text \<open>
  What \<open>DICOMSegmentationExporter.export\<close> does, as \<open>createSEG\<close> sees it: it returns,
  or raises one of its three exception classes (for \<open>MissingAttributeError\<close> the text
  is \<open>str(exc)\<close>, for \<open>NoNonEmptySegmentsFoundError\<close> the tuple is \<open>exc.args\<close>), or
  raises some other exception.
\<close>

datatype export_outcome =
    Exported
  | MissingAttributeError string
  | EmptySegmentsFoundError
  | NoNonEmptySegmentsFoundError "pyval list"
  | ExportRaised pyexc

text \<open>
  The collaborators of one save, outside this module: the metadata dialog, the
  constructor of the exporter, its \<open>export\<close> with the files it writes, the calls that
  gather the inputs of the report (\<open>getSeriesAttributes\<close> and \<open>getDICOMFileList\<close>, then
  \<open>generateJSON4DcmSR\<close>), which may raise, and the \<open>tid1500writer\<close> process with its
  status string and the files it writes. Nothing is assumed about what they do.
\<close>

record env =
  retrieveMetaDataFromUser :: "(string \<times> string) list option"
  new_exporter :: "pyexc + exporter"
  export_outcome :: export_outcome
  export_writes :: "file_system \<Rightarrow> file_system"
  series_collaborators :: "pyexc option"
  measurements_collaborator :: "pyexc option"
  cli_status :: string
  cli_writes :: "file_system \<Rightarrow> file_system"

text \<open>\<open>os.path.join\<close> of a directory and a relative file name, on POSIX.\<close>

definition os_path_join :: "string \<Rightarrow> string \<Rightarrow> string" where
  "os_path_join d f = (if d = [] then f else if last d = CHR ''/'' then d @ f else d @ ''/'' @ f)"

text \<open>The decimal text of a natural number, as an f-string prints a length.\<close>

definition digit_char :: "nat \<Rightarrow> char" where
  "digit_char d = ''0123456789'' ! d"

function str_nat :: "nat \<Rightarrow> string" where
  "str_nat n = (if n < 10 then [digit_char n] else str_nat (n div 10) @ [digit_char (n mod 10)])"
  by pat_completeness auto
termination
  by (relation "measure (\<lambda>n. n)") auto

subsection \<open>The merge of the characteristics into the report\<close>

text \<open>
  The inner loop of lines 801 to 807, over the items of one segment's dictionary: a
  lookup that raises ends the loop with the exception, \<open>None\<close> is skipped, and a found
  characteristic is appended to the \<open>ContentSequence\<close> of the segment's content item,
  which is read at that moment.
\<close>

fun add_characteristics ::
  "characteristic list \<Rightarrow> characteristics_entry \<Rightarrow> dataset \<Rightarrow> pyexc + dataset" where
  "add_characteristics cfg [] dataset = Inr dataset"
| "add_characteristics cfg ((concept_name, choice_label) # rest) dataset =
     (case find_characteristics_from_concept_name_and_choice concept_name choice_label cfg of
        Inl e \<Rightarrow> Inl e
      | Inr None \<Rightarrow> add_characteristics cfg rest dataset
      | Inr (Some characteristics) \<Rightarrow>
          (case get_seq ''ContentSequence'' dataset of
             Inl e \<Rightarrow> Inl e
           | Inr cs \<Rightarrow>
               add_characteristics cfg rest
                 (set_seq ''ContentSequence''
                    (cs @ [create_dataset_from_characteristics characteristics]) dataset)))"

text \<open>
  The outer loop of line 800 over the zipped pairs of content item and key;
  \<open>self.segment_characteristics[key]\<close> raises \<open>KeyError\<close> on a missing key.
\<close>

fun merge_items ::
  "characteristic list \<Rightarrow> characteristics_store \<Rightarrow> (dataset \<times> int) list \<Rightarrow> pyexc + dataset list" where
  "merge_items cfg sc [] = Inr []"
| "merge_items cfg sc ((dataset, key) # rest) =
     (case map_of sc key of
        None \<Rightarrow> Inl (Exc KeyError [PInt key])
      | Some entry \<Rightarrow>
          (case add_characteristics cfg entry dataset of
             Inl e \<Rightarrow> Inl e
           | Inr dataset' \<Rightarrow>
               (case merge_items cfg sc rest of
                  Inl e \<Rightarrow> Inl e
                | Inr rest' \<Rightarrow> Inr (dataset' # rest'))))"

text \<open>
  Lines 797 to 807 on the dataset read from the report file:
  \<open>sr_ds.ContentSequence[5].ContentSequence\<close> is zipped with the sorted keys. \<open>zip\<close>
  stops at the shorter of the two, so the content items past the last key stay as
  they are.
\<close>

definition merge_into_sr ::
  "characteristic list \<Rightarrow> characteristics_store \<Rightarrow> int list \<Rightarrow> dataset \<Rightarrow> pyexc + dataset" where
  "merge_into_sr cfg sc keys sr_ds =
     (case get_seq ''ContentSequence'' sr_ds of
        Inl e \<Rightarrow> Inl e
      | Inr root \<Rightarrow>
          if length root \<le> 5 then Inl (Exc IndexError [PStr ''list index out of range''])
          else
            (case get_seq ''ContentSequence'' (root ! 5) of
               Inl e \<Rightarrow> Inl e
             | Inr items \<Rightarrow>
                 (case merge_items cfg sc (zip items keys) of
                    Inl e \<Rightarrow> Inl e
                  | Inr merged \<Rightarrow>
                      Inr (set_seq ''ContentSequence''
                             (root[5 := set_seq ''ContentSequence''
                                          (merged @ drop (length keys) items) (root ! 5)])
                             sr_ds))))"

definition count_mismatch_message :: "dataset \<Rightarrow> characteristics_store \<Rightarrow> string" where
  "count_mismatch_message seg_ds sc =
     ''Number of segmentation ('' @ str_nat (len_dataset seg_ds)
       @ '') in SEG DICOM != Number of segmentation charateristics (''
       @ str_nat (length sc) @ '')''"

text \<open>
  Lines 788 to 811 of \<open>createDICOMSR\<close>, the part after the check of the process
  status. An exception leaves the state as it was: the report dataset is changed in
  memory only, and written by \<open>save_as\<close> at the very end.
\<close>

definition merge_characteristics ::
  "qr_state \<Rightarrow> string \<Rightarrow> string \<Rightarrow> (pyexc + string) \<times> qr_state" where
  "merge_characteristics st referencedSegmentation outputSRPath =
     (case dcmread (files st) referencedSegmentation of
        Inl e \<Rightarrow> (Inl e, st)
      | Inr seg_ds \<Rightarrow>
          (let sorted_segment_characteristics_keys = sort (map fst (segment_characteristics st)) in
           case get_seq ''SegmentSequence'' seg_ds of
             Inl e \<Rightarrow> (Inl e, st)
           | Inr SegmentSequence \<Rightarrow>
               if length SegmentSequence \<noteq> length sorted_segment_characteristics_keys then
                 (Inl (Exc ValueError
                         [PStr (count_mismatch_message seg_ds (segment_characteristics st))]), st)
               else
                 (case dcmread (files st) outputSRPath of
                    Inl e \<Rightarrow> (Inl e, st)
                  | Inr sr_ds \<Rightarrow>
                      (case merge_into_sr (characteristics_config st) (segment_characteristics st)
                              sorted_segment_characteristics_keys sr_ds of
                         Inl e \<Rightarrow> (Inl e, st)
                       | Inr sr_ds' \<Rightarrow>
                           (Inr outputSRPath,
                            st\<lparr>files := (files st)(outputSRPath \<mapsto> Dicom sr_ds')\<rparr>)))))"

subsection \<open>Creating the segmentation file and the report\<close>

datatype json = JStr string | JObj "(string \<times> json) list"

text \<open>
  \<open>_getAdditionalSRInformation\<close> reads two keys of \<open>self._metadata\<close>; a missing key
  raises \<open>KeyError\<close>, and subscripting \<open>None\<close> raises \<open>TypeError\<close>.
\<close>

definition getAdditionalSRInformation :: "qr_state \<Rightarrow> bool \<Rightarrow> pyexc + (string \<times> json) list" where
  "getAdditionalSRInformation st completed =
     (case metadata st of
        None \<Rightarrow> Inl (Exc TypeError [PStr ([CHR 0x27] @ ''NoneType' object is not subscriptable'')])
      | Some md \<Rightarrow>
          (case map_of md ''ContentCreatorName'' of
             None \<Rightarrow> Inl (Exc KeyError [PStr ''ContentCreatorName''])
           | Some creator \<Rightarrow>
               (case map_of md ''ClinicalTrialTimePointID'' of
                  None \<Rightarrow> Inl (Exc KeyError [PStr ''ClinicalTrialTimePointID''])
                | Some time_point \<Rightarrow>
                    Inr [(''observerContext'',
                            JObj [(''ObserverType'', JStr ''PERSON''),
                                  (''PersonObserverName'', JStr creator)]),
                         (''VerificationFlag'', JStr (if completed then ''VERIFIED'' else ''UNVERIFIED'')),
                         (''CompletionFlag'', JStr (if completed then ''COMPLETE'' else ''PARTIAL'')),
                         (''activitySession'', JStr ''1''),
                         (''timePoint'', JStr time_point)])))"

text \<open>
  \<open>createSEG\<close>. The new exporter is stored in the widget before anything else. The
  inner \<open>try\<close> turns \<open>MissingAttributeError\<close> and \<open>EmptySegmentsFoundError\<close> into a
  \<open>ValueError\<close> with a message; the outer \<open>try\<close> catches that \<open>ValueError\<close>, any other
  \<open>ValueError\<close> and \<open>NoNonEmptySegmentsFoundError\<close>, and raises
  \<open>ValueError(exc.args)\<close>, whose single argument is the tuple. (The question about
  hidden segments only chooses the \<open>segmentIDs\<close> argument of \<open>export\<close>.)
\<close>

definition createSEG :: "env \<Rightarrow> qr_state \<Rightarrow> (pyexc + string) \<times> qr_state" where
  "createSEG env st =
     (case new_exporter env of
        Inl e \<Rightarrow> (Inl e, st)
      | Inr ex \<Rightarrow>
          (let st1 = st\<lparr>dicomSegmentationExporter := Some ex\<rparr>;
               segFilename = ''quantitative_reporting_export.SEG'' @ currentDateTime ex @ ''.dcm'';
               dcmSegmentationPath = os_path_join (tempDir ex) segFilename
           in case export_outcome env of
                Exported \<Rightarrow>
                  (Inr dcmSegmentationPath,
                   st1\<lparr>files := export_writes env (files st1),
                        calls := calls st1 @ [DatabaseInsert dcmSegmentationPath]\<rparr>)
              | MissingAttributeError text \<Rightarrow>
                  (Inl (Exc ValueError [PTuple [PStr (''Missing attributes: '' @ text @ '' '')]]), st1)
              | EmptySegmentsFoundError \<Rightarrow>
                  (Inl (Exc ValueError [PTuple [PStr
                     ''Empty segments found. Please make sure that there are no empty segments.'']]),
                   st1)
              | NoNonEmptySegmentsFoundError a \<Rightarrow> (Inl (Exc ValueError [PTuple a]), st1)
              | ExportRaised e \<Rightarrow>
                  (if isinstance e ValueError then Inl (Exc ValueError [PTuple (args e)]) else Inl e,
                   st1)))"

text \<open>
  The files on disk when the \<open>tid1500writer\<close> process has run: \<open>saveJSON\<close> has
  written the metadata file into the exporter's temporary directory, and the process
  has written what it writes.
\<close>

definition after_cli :: "env \<Rightarrow> exporter \<Rightarrow> qr_state \<Rightarrow> qr_state" where
  "after_cli env ex st =
     (let metaFilePath = os_path_join (tempDir ex) ''sr_meta.json''
      in st\<lparr>files := cli_writes env ((files st)(metaFilePath \<mapsto> NonDicom))\<rparr>)"

definition outputSRPath :: "exporter \<Rightarrow> string" where
  "outputSRPath ex = os_path_join (tempDir ex) ''sr.dcm''"

text \<open>
  \<open>createDICOMSR\<close>: the inputs of the report are gathered, the metadata file is
  written, the \<open>tid1500writer\<close> process runs, and a status other than \<open>Completed\<close>
  raises a plain \<open>Exception\<close>; then comes the merge.
\<close>

definition createDICOMSR :: "env \<Rightarrow> qr_state \<Rightarrow> string \<Rightarrow> bool \<Rightarrow> (pyexc + string) \<times> qr_state" where
  "createDICOMSR env st referencedSegmentation completed =
     (case dicomSegmentationExporter st of
        None \<Rightarrow>
          (Inl (Exc AttributeError
                  [PStr ([CHR 0x27] @ ''NoneType' object has no attribute 'getSeriesAttributes''
                         @ [CHR 0x27])]), st)
      | Some ex \<Rightarrow>
          (case series_collaborators env of
             Some e \<Rightarrow> (Inl e, st)
           | None \<Rightarrow>
               (case getAdditionalSRInformation st completed of
                  Inl e \<Rightarrow> (Inl e, st)
                | Inr info \<Rightarrow>
                    (case measurements_collaborator env of
                       Some e \<Rightarrow> (Inl e, st)
                     | None \<Rightarrow>
                         if cli_status env \<noteq> ''Completed'' then
                           (Inl (Exc Exception [PStr ''tid1500writer CLI did not complete cleanly'']),
                            after_cli env ex st)
                         else
                           merge_characteristics (after_cli env ex st) referencedSegmentation
                             (outputSRPath ex)))))"

text \<open>
  The conditions under which \<open>createDICOMSR\<close> gets to the merge: the widget has the
  exporter \<open>ex\<close>, no collaborator raises, the metadata has the two keys, and the
  process ends with the status \<open>Completed\<close>.
\<close>

definition reaches_merge :: "env \<Rightarrow> qr_state \<Rightarrow> bool \<Rightarrow> exporter \<Rightarrow> bool" where
  "reaches_merge env st completed ex =
     (dicomSegmentationExporter st = Some ex
      \<and> series_collaborators env = None
      \<and> (case getAdditionalSRInformation st completed of Inl e \<Rightarrow> False | Inr info \<Rightarrow> True)
      \<and> measurements_collaborator env = None
      \<and> cli_status env = ''Completed'')"

definition cleanupTemporaryData :: "qr_state \<Rightarrow> qr_state" where
  "cleanupTemporaryData st =
     (case dicomSegmentationExporter st of
        Some ex \<Rightarrow> st\<lparr>calls := calls st @ [ExporterCleanup ex], dicomSegmentationExporter := None\<rparr>
      | None \<Rightarrow> st\<lparr>dicomSegmentationExporter := None\<rparr>)"

text \<open>The body of the \<open>try\<close> statement of \<open>saveReport\<close>, lines 697 to 702.\<close>

definition save_body :: "env \<Rightarrow> qr_state \<Rightarrow> bool \<Rightarrow> (pyexc + unit) \<times> qr_state" where
  "save_body env st completed =
     (case createSEG env st of
        (Inl e, st1) \<Rightarrow> (Inl e, st1)
      | (Inr dcmSegPath, st1) \<Rightarrow>
          (case createDICOMSR env st1 dcmSegPath completed of
             (Inl e, st2) \<Rightarrow> (Inl e, st2)
           | (Inr dcmSRPath, st2) \<Rightarrow>
               (Inr (),
                if dcmSegPath \<noteq> [] \<and> dcmSRPath \<noteq> [] then
                  st2\<lparr>calls := calls st2 @ [IndexerAddFile dcmSegPath, IndexerAddFile dcmSRPath]\<rparr>
                else st2)))"

text \<open>
  \<open>saveReport\<close>. \<open>Inr (success, err)\<close> is the returned pair, \<open>Inl e\<close> an exception
  that leaves the function. The \<open>except\<close> clause catches \<open>RuntimeError\<close>,
  \<open>ValueError\<close> and \<open>AttributeError\<close> and returns \<open>exc.args\<close>; the \<open>finally\<close>
  clause runs on every way out of the \<open>try\<close> statement.
\<close>

definition saveReport :: "env \<Rightarrow> qr_state \<Rightarrow> bool \<Rightarrow> (pyexc + bool \<times> pyval) \<times> qr_state" where
  "saveReport env st completed =
     (let st0 = st\<lparr>metadata := retrieveMetaDataFromUser env\<rparr> in
      if metadata st0 = None \<or> metadata st0 = Some [] then
        (Inr (False, PStr ''Saving process canceled. Meta-information was not confirmed by user.''), st0)
      else
        (case save_body env st0 completed of
           (Inl exc, st1) \<Rightarrow>
             if catches [RuntimeError, ValueError, AttributeError] exc then
               (Inr (False, PTuple (args exc)), cleanupTemporaryData st1)
             else (Inl exc, cleanupTemporaryData st1)
         | (Inr u, st1) \<Rightarrow> (Inr (True, PNone), cleanupTemporaryData st1)))"

subsection \<open>What the merge is expected to produce\<close>

text \<open>The content items that an SR content item already has.\<close>

definition content_items :: "dataset \<Rightarrow> dataset list" where
  "content_items item = (case map_of (seqs item) ''ContentSequence'' of Some cs \<Rightarrow> cs | None \<Rightarrow> [])"

text \<open>
  Every entry of a segment's dictionary other than \<open>N/A\<close> resolves in the catalogue:
  some catalogue entry has the concept name and offers the label.
\<close>

definition resolvable :: "characteristic list \<Rightarrow> characteristics_entry \<Rightarrow> bool" where
  "resolvable cfg entry =
     list_all (\<lambda>(concept_name, choice_label).
        choice_label = ''N/A'' \<or> list_ex (offers concept_name choice_label) cfg) entry"

text \<open>
  The codes that the catalogue gives for a concept name and a label: the concept-name
  code of the first entry that has the name and offers the label, and the first choice
  of that entry with the label.
\<close>

definition catalog_name_code :: "characteristic list \<Rightarrow> string \<Rightarrow> string \<Rightarrow> code" where
  "catalog_name_code cfg concept_name choice_label =
     ConceptNameCodeSequence (the (List.find (offers concept_name choice_label) cfg))"

definition catalog_choice_code :: "characteristic list \<Rightarrow> string \<Rightarrow> string \<Rightarrow> code" where
  "catalog_choice_code cfg concept_name choice_label =
     the (List.find (\<lambda>j. CodeMeaning j = choice_label)
            (choices (the (List.find (offers concept_name choice_label) cfg))))"

text \<open>
  The coded content item of the data model, written out element by element: the
  relationship type \<open>CONTAINS\<close>, the value type \<open>CODE\<close>, a concept-name code
  sequence with the single code of the concept name and a concept code sequence with the
  single code of the choice, each code with its value, its coding scheme designator and
  its meaning.
\<close>

definition coded_content_item :: "code \<Rightarrow> code \<Rightarrow> dataset" where
  "coded_content_item concept_name choice =
     Dataset [(''RelationshipType'', ''CONTAINS''), (''ValueType'', ''CODE'')]
       [(''ConceptNameCodeSequence'',
           [Dataset [(''CodeValue'', CodeValue concept_name),
                     (''CodingSchemeDesignator'', CodingSchemeDesignator concept_name),
                     (''CodeMeaning'', CodeMeaning concept_name)] []]),
        (''ConceptCodeSequence'',
           [Dataset [(''CodeValue'', CodeValue choice),
                     (''CodingSchemeDesignator'', CodingSchemeDesignator choice),
                     (''CodeMeaning'', CodeMeaning choice)] []])]"

text \<open>
  One coded content item for each entry other than \<open>N/A\<close>, in the order of the
  dictionary, with the codes that the catalogue gives for the entry.
\<close>

definition coded_items :: "characteristic list \<Rightarrow> characteristics_entry \<Rightarrow> dataset list" where
  "coded_items cfg entry =
     map (\<lambda>(concept_name, choice_label).
            coded_content_item
              (catalog_name_code cfg concept_name choice_label)
              (catalog_choice_code cfg concept_name choice_label))
         (filter (\<lambda>(concept_name, choice_label). choice_label \<noteq> ''N/A'') entry)"

text \<open>A content item with the coded items of a dictionary appended to its own.\<close>

definition with_coded_items :: "characteristic list \<Rightarrow> characteristics_entry \<Rightarrow> dataset \<Rightarrow> dataset" where
  "with_coded_items cfg entry item =
     set_seq ''ContentSequence'' (content_items item @ coded_items cfg entry) item"

text \<open>
  The per-segment content items after a merge without exceptions: the items paired
  with a key carry the coded items of that key's dictionary, the others are as before.
\<close>

definition merged_items ::
  "characteristic list \<Rightarrow> characteristics_store \<Rightarrow> dataset list \<Rightarrow> dataset list" where
  "merged_items cfg sc items =
     map (\<lambda>(item, key). with_coded_items cfg (the (map_of sc key)) item)
         (zip items (sort (map fst sc)))
     @ drop (length sc) items"

text \<open>A pair of the zip can be merged: the item has a content sequence, the key an
  entry, and the entry resolves.\<close>

definition mergeable :: "characteristic list \<Rightarrow> characteristics_store \<Rightarrow> dataset \<times> int \<Rightarrow> bool" where
  "mergeable cfg sc p =
     (case p of (item, key) \<Rightarrow>
        map_of (seqs item) ''ContentSequence'' \<noteq> None
        \<and> (case map_of sc key of None \<Rightarrow> False | Some entry \<Rightarrow> resolvable cfg entry))"

subsection \<open>Example datasets, stores and collaborators\<close>

definition filler :: dataset where
  "filler = Dataset [] []"

definition segment_item :: "string \<Rightarrow> dataset" where
  "segment_item name = Dataset [(''TrackingIdentifier'', name)] [(''ContentSequence'', [])]"

text \<open>A report whose root content sequence holds the given per-segment items at index 5.\<close>

definition report_with :: "dataset list \<Rightarrow> dataset" where
  "report_with items =
     Dataset [(''Modality'', ''SR'')]
       [(''ContentSequence'',
           [filler, filler, filler, filler, filler, Dataset [] [(''ContentSequence'', items)]])]"

definition seg_with :: "nat \<Rightarrow> dataset" where
  "seg_with n = Dataset [(''Modality'', ''SEG'')] [(''SegmentSequence'', replicate n filler)]"

text \<open>Segment 12 was entered first and has no selection; segment 7 is \<open>Round\<close>.\<close>

definition example_store :: characteristics_store where
  "example_store = [(12, [(''Shape'', ''N/A'')]), (7, [(''Shape'', ''Round'')])]"

text \<open>
  Segment 12 carries a label that the catalogue does not have; in
  \<open>unresolved_store\<close> it is segment 7, the lowest key, that does.
\<close>

definition stale_store :: characteristics_store where
  "stale_store = [(12, [(''Shape'', ''Oval'')]), (7, [(''Shape'', ''Round'')])]"

text \<open>The coded content item for \<open>Shape\<close> = \<open>Round\<close> of \<open>shape_catalog\<close>.\<close>

definition round_item :: dataset where
  "round_item =
     Dataset [(''RelationshipType'', ''CONTAINS''), (''ValueType'', ''CODE'')]
       [(''ConceptNameCodeSequence'',
           [Dataset [(''CodeValue'', ''C1''), (''CodingSchemeDesignator'', ''99QR''),
                     (''CodeMeaning'', ''Shape'')] []]),
        (''ConceptCodeSequence'',
           [Dataset [(''CodeValue'', ''A''), (''CodingSchemeDesignator'', ''99QR''),
                     (''CodeMeaning'', ''Round'')] []])]"

definition example_exporter :: exporter where
  "example_exporter = \<lparr>tempDir = ''/t'', currentDateTime = ''0''\<rparr>"

text \<open>
  Collaborators that all do their work: the exporter writes a segmentation file with
  the given dataset, the process writes the given report and ends with the given status.
\<close>

definition example_env :: "dataset \<Rightarrow> dataset \<Rightarrow> string \<Rightarrow> env" where
  "example_env seg sr status =
     \<lparr>retrieveMetaDataFromUser =
        Some [(''ContentCreatorName'', ''Reader''), (''ClinicalTrialTimePointID'', ''1'')],
      new_exporter = Inr example_exporter,
      export_outcome = Exported,
      export_writes = (\<lambda>fs. fs(''/t/quantitative_reporting_export.SEG0.dcm'' \<mapsto> Dicom seg)),
      series_collaborators = None,
      measurements_collaborator = None,
      cli_status = status,
      cli_writes = (\<lambda>fs. fs(''/t/sr.dcm'' \<mapsto> Dicom sr))\<rparr>"

text \<open>The widget between \<open>createSEG\<close> and \<open>createDICOMSR\<close>, with the segmentation file on disk.\<close>

definition unresolved_store :: characteristics_store where
  "unresolved_store = [(12, [(''Shape'', ''N/A'')]), (7, [(''Shape'', ''Oval'')])]"

definition exported_state :: "characteristics_store \<Rightarrow> dataset \<Rightarrow> qr_state" where
  "exported_state sc seg =
     \<lparr>segment_characteristics = sc, characteristics_config = shape_catalog,
      dicomSegmentationExporter = Some example_exporter,
      metadata = Some [(''ContentCreatorName'', ''Reader''), (''ClinicalTrialTimePointID'', ''1'')],
      files = [''/t/seg.dcm'' \<mapsto> Dicom seg], calls = []\<rparr>"

text \<open>Collaborators as in \<open>example_env\<close>, with a process that writes no report at all.\<close>

definition silent_env :: env where
  "silent_env =
     \<lparr>retrieveMetaDataFromUser =
        Some [(''ContentCreatorName'', ''Reader''), (''ClinicalTrialTimePointID'', ''1'')],
      new_exporter = Inr example_exporter,
      export_outcome = Exported,
      export_writes = (\<lambda>fs. fs),
      series_collaborators = None,
      measurements_collaborator = None,
      cli_status = ''Completed'',
      cli_writes = (\<lambda>fs. fs)\<rparr>"

definition initial_state :: "characteristics_store \<Rightarrow> qr_state" where
  "initial_state sc =
     \<lparr>segment_characteristics = sc, characteristics_config = shape_catalog,
      dicomSegmentationExporter = None, metadata = None,
      files = Map.empty, calls = []\<rparr>"

section \<open>Properties of the lookup\<close>

lemma find_choice_None:
  "List.find (\<lambda>j. CodeMeaning j = cl) cs = None \<longleftrightarrow> \<not> list_ex (\<lambda>j. CodeMeaning j = cl) cs"
  by (auto simp add: find_None_iff list_ex_iff)

lemma find_in_config_Cons:
  "find_in_config cn cl (i # rest) =
     (if offers cn cl i then
        Some \<lparr>concept_name_code = ConceptNameCodeSequence i,
              concept_code = the (List.find (\<lambda>j. CodeMeaning j = cl) (choices i))\<rparr>
      else find_in_config cn cl rest)"
proof (cases "List.find (\<lambda>j. CodeMeaning j = cl) (choices i)")
  case None
  then show ?thesis using find_choice_None [of cl "choices i"] by (simp add: offers_def)
next
  case (Some j)
  then show ?thesis using find_choice_None [of cl "choices i"] by (simp add: offers_def)
qed

lemma find_in_config_None:
  "find_in_config cn cl cfg = None \<longleftrightarrow> \<not> list_ex (offers cn cl) cfg"
  by (induction cfg) (simp_all add: find_in_config_Cons del: find_in_config.simps(2))

lemma find_in_config_Some:
  "find_in_config cn cl cfg = Some c \<Longrightarrow>
     \<exists>i. List.find (offers cn cl) cfg = Some i
        \<and> c = \<lparr>concept_name_code = ConceptNameCodeSequence i,
                concept_code = the (List.find (\<lambda>j. CodeMeaning j = cl) (choices i))\<rparr>"
  by (induction cfg)
     (auto simp add: find_in_config_Cons simp del: find_in_config.simps(2) split: if_splits)

lemma find_offers_first:
  "List.find (offers cn cl) cfg = Some i \<Longrightarrow> i \<in> set cfg \<and> offers cn cl i"
  by (induction cfg) (auto split: if_splits)

lemma find_choice_first:
  "list_ex (\<lambda>j. CodeMeaning j = cl) cs \<Longrightarrow>
     the (List.find (\<lambda>j. CodeMeaning j = cl) cs) \<in> set cs
     \<and> CodeMeaning (the (List.find (\<lambda>j. CodeMeaning j = cl) cs)) = cl"
  by (induction cs) auto

lemma distinct_map_eq:
  "distinct (map f xs) \<Longrightarrow> x \<in> set xs \<Longrightarrow> y \<in> set xs \<Longrightarrow> f x = f y \<Longrightarrow> x = y"
  by (auto simp: distinct_map dest: inj_onD)

text \<open>
  Claim C4, as amended. When the lookup returns a dictionary, its concept-name code is
  that of the first catalogue entry that has the concept name and also offers the choice
  label. An earlier entry with the same concept name that lacks the label is passed over,
  so the first entry with the concept name does not always win.
\<close>

theorem first_offering_entry_wins:
  assumes "find_characteristics_from_concept_name_and_choice concept_name choice_label cfg
           = Inr (Some r)"
  shows "\<exists>i. List.find (offers concept_name choice_label) cfg = Some i
             \<and> concept_name_code r = ConceptNameCodeSequence i"
proof -
  from assms have "find_in_config concept_name choice_label cfg = Some r"
    by (auto simp: find_characteristics_from_concept_name_and_choice_def
             split: if_splits option.splits)
  from find_in_config_Some [OF this] show ?thesis by auto
qed

theorem first_offering_entry_wins_witness:
  "find_characteristics_from_concept_name_and_choice ''Shape'' ''Irregular'' duplicate_catalog
     = Inr (Some \<lparr>concept_name_code = shape_code_2, concept_code = irregular_code\<rparr>)
   \<and> (\<exists>i. List.find (offers ''Shape'' ''Irregular'') duplicate_catalog = Some i
          \<and> concept_name_code \<lparr>concept_name_code = shape_code_2, concept_code = irregular_code\<rparr>
              = ConceptNameCodeSequence i)"
proof -
  have h: "find_characteristics_from_concept_name_and_choice ''Shape'' ''Irregular'' duplicate_catalog
     = Inr (Some \<lparr>concept_name_code = shape_code_2, concept_code = irregular_code\<rparr>)"
    by (simp add: find_characteristics_from_concept_name_and_choice_def duplicate_catalog_def
        shape_code_def shape_code_2_def round_code_def irregular_code_def)
  from first_offering_entry_wins [OF h] h show ?thesis by simp
qed

text \<open>
  Claim C4 as it was stated fails on a catalogue with a duplicate concept name: both
  entries of \<open>duplicate_catalog\<close> are named \<open>Shape\<close>, the first one is the first entry
  with that concept name, and the lookup of \<open>Irregular\<close> returns the concept-name code
  of the second.
\<close>

theorem first_concept_name_counterexample:
  "find_characteristics_from_concept_name_and_choice ''Shape'' ''Irregular'' duplicate_catalog
     = Inr (Some \<lparr>concept_name_code = shape_code_2, concept_code = irregular_code\<rparr>)
   \<and> first_with_concept_name ''Shape'' duplicate_catalog
     = Some \<lparr>ConceptNameCodeSequence = shape_code, choices = [round_code]\<rparr>
   \<and> shape_code_2 \<noteq> shape_code"
  by (simp add: find_characteristics_from_concept_name_and_choice_def duplicate_catalog_def
      shape_code_def shape_code_2_def round_code_def irregular_code_def)

text \<open>
  Claim C5, as amended. When the label is not \<open>N/A\<close> and no catalogue entry has both
  the concept name and the label (the concept name is absent, or present without that
  choice), the lookup raises a \<open>ValueError\<close> whose single argument is the message
  \<open>Concept name code (CodeMeaning=<concept_name>) with choices <choice_label> not found\<close>,
  which spells out both inputs. A \<open>ValueError\<close> is not an instance of \<open>LookupError\<close>.
\<close>

theorem unmatched_lookup_raises_ValueError:
  assumes "choice_label \<noteq> ''N/A''"
    and "\<forall>i \<in> set cfg. CodeMeaning (ConceptNameCodeSequence i) = concept_name
           \<longrightarrow> (\<forall>j \<in> set (choices i). CodeMeaning j \<noteq> choice_label)"
  shows "find_characteristics_from_concept_name_and_choice concept_name choice_label cfg
           = Inl (Exc ValueError
               [PStr (''Concept name code (CodeMeaning='' @ concept_name @ '') with choices ''
                      @ choice_label @ '' not found'')])
         \<and> \<not> isinstance (Exc ValueError
               [PStr (''Concept name code (CodeMeaning='' @ concept_name @ '') with choices ''
                      @ choice_label @ '' not found'')]) LookupError"
proof -
  from assms(2) have "\<not> list_ex (offers concept_name choice_label) cfg"
    by (auto simp: list_ex_iff offers_def)
  then have "find_in_config concept_name choice_label cfg = None"
    by (simp add: find_in_config_None)
  with assms(1) show ?thesis
    by (simp add: find_characteristics_from_concept_name_and_choice_def not_found_message_def
        isinstance_def)
qed

theorem unmatched_lookup_raises_ValueError_witness:
  "find_characteristics_from_concept_name_and_choice ''Shape'' ''Oval'' shape_catalog
     = Inl (Exc ValueError
         [PStr ''Concept name code (CodeMeaning=Shape) with choices Oval not found''])
   \<and> find_characteristics_from_concept_name_and_choice ''Margin'' ''Round'' shape_catalog
     = Inl (Exc ValueError
         [PStr ''Concept name code (CodeMeaning=Margin) with choices Round not found''])"
proof -
  have a: "''Oval'' \<noteq> ''N/A''" and b: "''Round'' \<noteq> ''N/A''" by simp_all
  have c: "\<forall>i \<in> set shape_catalog. CodeMeaning (ConceptNameCodeSequence i) = ''Shape''
           \<longrightarrow> (\<forall>j \<in> set (choices i). CodeMeaning j \<noteq> ''Oval'')"
    by (simp add: shape_catalog_def shape_code_def round_code_def irregular_code_def)
  have d: "\<forall>i \<in> set shape_catalog. CodeMeaning (ConceptNameCodeSequence i) = ''Margin''
           \<longrightarrow> (\<forall>j \<in> set (choices i). CodeMeaning j \<noteq> ''Round'')"
    by (simp add: shape_catalog_def shape_code_def round_code_def irregular_code_def)
  from unmatched_lookup_raises_ValueError [OF a c] unmatched_lookup_raises_ValueError [OF b d]
  show ?thesis by simp
qed

text \<open>
  Claim C5 as it was stated asks for a condition of the \<open>LookupError\<close> class. The
  lookup of the unknown label \<open>Oval\<close> raises a \<open>ValueError\<close>, and \<open>ValueError\<close> does
  not have \<open>LookupError\<close> among its base classes.
\<close>

theorem unmatched_lookup_not_LookupError_counterexample:
  "find_characteristics_from_concept_name_and_choice ''Shape'' ''Oval'' shape_catalog
     = Inl (Exc ValueError
         [PStr ''Concept name code (CodeMeaning=Shape) with choices Oval not found''])
   \<and> \<not> isinstance (Exc ValueError
         [PStr ''Concept name code (CodeMeaning=Shape) with choices Oval not found''])
       LookupError"
  by (simp add: find_characteristics_from_concept_name_and_choice_def shape_catalog_def
      shape_code_def round_code_def irregular_code_def not_found_message_def isinstance_def)

text \<open>
  Claim C6. For a label other than \<open>N/A\<close>, when the catalogue has an entry \<open>i\<close> with
  the concept name and a choice \<open>j\<close> of that entry with the label, the lookup returns a
  dictionary built from an entry of the catalogue with that concept name and one of its
  choices with that label: the entry's concept-name code and the choice, both carried
  over whole (code value, coding scheme designator and code meaning). When concept names
  are unique in the catalogue and the choice meanings are unique in the entry, as the
  data model requires, this is exactly the pair \<open>(i, j)\<close>.
\<close>

theorem present_pair_resolves_to_catalog_codes:
  assumes "choice_label \<noteq> ''N/A''"
    and "i \<in> set cfg" and "CodeMeaning (ConceptNameCodeSequence i) = concept_name"
    and "j \<in> set (choices i)" and "CodeMeaning j = choice_label"
  shows "(\<exists>i' \<in> set cfg. \<exists>j' \<in> set (choices i').
            CodeMeaning (ConceptNameCodeSequence i') = concept_name
            \<and> CodeMeaning j' = choice_label
            \<and> find_characteristics_from_concept_name_and_choice concept_name choice_label cfg
                = Inr (Some \<lparr>concept_name_code = ConceptNameCodeSequence i', concept_code = j'\<rparr>))
         \<and> (distinct (map (\<lambda>e. CodeMeaning (ConceptNameCodeSequence e)) cfg)
              \<and> distinct (map CodeMeaning (choices i))
            \<longrightarrow> find_characteristics_from_concept_name_and_choice concept_name choice_label cfg
                = Inr (Some \<lparr>concept_name_code = ConceptNameCodeSequence i, concept_code = j\<rparr>))"
proof -
  let ?pick = "\<lambda>e. the (List.find (\<lambda>j. CodeMeaning j = choice_label) (choices e))"
  from assms have "list_ex (offers concept_name choice_label) cfg"
    by (auto simp: list_ex_iff offers_def)
  then obtain r where r: "find_in_config concept_name choice_label cfg = Some r"
    using find_in_config_None [of concept_name choice_label cfg] by auto
  from find_in_config_Some [OF r] obtain i'
    where i': "List.find (offers concept_name choice_label) cfg = Some i'"
      and r_eq: "r = \<lparr>concept_name_code = ConceptNameCodeSequence i', concept_code = ?pick i'\<rparr>"
    by auto
  from find_offers_first [OF i'] have in_cfg: "i' \<in> set cfg"
    and off: "offers concept_name choice_label i'" by simp_all
  from off have name: "CodeMeaning (ConceptNameCodeSequence i') = concept_name"
    and ex: "list_ex (\<lambda>j. CodeMeaning j = choice_label) (choices i')"
    by (simp_all add: offers_def)
  from find_choice_first [OF ex] have pick_in: "?pick i' \<in> set (choices i')"
    and pick_label: "CodeMeaning (?pick i') = choice_label" by simp_all
  have res: "find_characteristics_from_concept_name_and_choice concept_name choice_label cfg
      = Inr (Some \<lparr>concept_name_code = ConceptNameCodeSequence i', concept_code = ?pick i'\<rparr>)"
    using assms(1) r r_eq by (simp add: find_characteristics_from_concept_name_and_choice_def)
  have first: "\<exists>i' \<in> set cfg. \<exists>j' \<in> set (choices i').
      CodeMeaning (ConceptNameCodeSequence i') = concept_name \<and> CodeMeaning j' = choice_label
      \<and> find_characteristics_from_concept_name_and_choice concept_name choice_label cfg
          = Inr (Some \<lparr>concept_name_code = ConceptNameCodeSequence i', concept_code = j'\<rparr>)"
    using in_cfg pick_in name pick_label res by blast
  have second: "find_characteristics_from_concept_name_and_choice concept_name choice_label cfg
      = Inr (Some \<lparr>concept_name_code = ConceptNameCodeSequence i, concept_code = j\<rparr>)"
    if d1: "distinct (map (\<lambda>e. CodeMeaning (ConceptNameCodeSequence e)) cfg)"
      and d2: "distinct (map CodeMeaning (choices i))"
  proof -
    have "i' = i"
      using distinct_map_eq [OF d1 in_cfg assms(2)] name assms(3) by simp
    moreover from this have "?pick i' = j"
      using distinct_map_eq [OF d2 _ assms(4)] pick_in pick_label assms(5) by simp
    ultimately show ?thesis using res by simp
  qed
  from first second show ?thesis by blast
qed

theorem present_pair_resolves_to_catalog_codes_witness:
  "find_characteristics_from_concept_name_and_choice ''Shape'' ''Irregular'' shape_catalog
     = Inr (Some \<lparr>concept_name_code = shape_code, concept_code = irregular_code\<rparr>)"
proof -
  let ?i = "\<lparr>ConceptNameCodeSequence = shape_code, choices = [round_code, irregular_code]\<rparr>"
  have a: "''Irregular'' \<noteq> ''N/A''" by simp
  have b: "?i \<in> set shape_catalog" by (simp add: shape_catalog_def)
  have c: "CodeMeaning (ConceptNameCodeSequence ?i) = ''Shape''" by (simp add: shape_code_def)
  have d: "irregular_code \<in> set (choices ?i)" by simp
  have e: "CodeMeaning irregular_code = ''Irregular''" by (simp add: irregular_code_def)
  have f: "distinct (map (\<lambda>e. CodeMeaning (ConceptNameCodeSequence e)) shape_catalog)
           \<and> distinct (map CodeMeaning (choices ?i))"
    by (simp add: shape_catalog_def round_code_def irregular_code_def)
  from present_pair_resolves_to_catalog_codes [OF a b c d e] f show ?thesis by simp
qed

text \<open>
  Claim C7. With the label \<open>N/A\<close> the lookup returns \<open>None\<close>, without raising, for
  every concept name and every catalogue, also when the catalogue does not have the
  concept name: the label is tested before the catalogue is looked at.
\<close>

theorem not_applicable_returns_None:
  "find_characteristics_from_concept_name_and_choice concept_name ''N/A'' cfg = Inr None"
  by (simp add: find_characteristics_from_concept_name_and_choice_def)

section \<open>Properties of the store and of the merge\<close>

lemma map_of_prune:
  "map_of (prune_segment_characteristics ids sc) k = (if k \<in> set ids then map_of sc k else None)"
  by (induction sc) (auto simp: prune_segment_characteristics_def)

lemma set_prune:
  "set (prune_segment_characteristics ids sc) = {(k, c). (k, c) \<in> set sc \<and> k \<in> set ids}"
  by (auto simp: prune_segment_characteristics_def)

lemma in_keys_iff: "k \<in> fst ` set sc \<longleftrightarrow> map_of sc k \<noteq> None"
  by (simp add: map_of_eq_None_iff)

lemma map_of_create_missing:
  "map_of (create_missing_entries segs sc) k =
     (case map_of sc k of Some c \<Rightarrow> Some c
      | None \<Rightarrow> if k \<in> GetLabelValue ` set segs then Some [] else None)"
proof (induction segs arbitrary: sc)
  case Nil
  then show ?case by (simp split: option.splits)
next
  case (Cons seg rest)
  show ?case
    by (auto simp: Cons.IH in_keys_iff map_of_append split: option.splits)
qed

lemma get_seq_set_seq: "get_seq n (set_seq n s ds) = Inr s"
  by (simp add: get_seq_def set_seq_def update_conv')

lemma set_seq_set_seq: "set_seq n s (set_seq n s' ds) = set_seq n s ds"
  by (simp add: set_seq_def)

text \<open>Writing a sequence attribute changes that attribute and no other element.\<close>

lemma set_seq_elements:
  "strs (set_seq n s ds) = strs ds"
  "map_of (seqs (set_seq n s ds)) = (map_of (seqs ds))(n \<mapsto> s)"
  by (simp_all add: set_seq_def update_conv')

lemma content_items_get_seq:
  "map_of (seqs item) ''ContentSequence'' \<noteq> None \<Longrightarrow>
     get_seq ''ContentSequence'' item = Inr (content_items item)"
  by (auto simp: get_seq_def content_items_def)

text \<open>\<open>create_dataset_from_characteristics\<close> builds the coded content item of the data model.\<close>

lemma create_dataset_is_coded_content_item:
  "create_dataset_from_characteristics c
     = coded_content_item (concept_name_code c) (concept_code c)"
  by (simp add: create_dataset_from_characteristics_def code_dataset_def coded_content_item_def)

lemma add_characteristics_resolvable:
  "resolvable cfg entry \<Longrightarrow> get_seq ''ContentSequence'' item = Inr cs \<Longrightarrow>
     add_characteristics cfg entry item
       = Inr (set_seq ''ContentSequence'' (cs @ coded_items cfg entry) item)"
proof (induction entry arbitrary: item cs)
  case Nil
  then show ?case
    by (auto simp: coded_items_def set_seq_def get_seq_def update_triv split: option.splits
        intro: dataset.expand)
next
  case (Cons p rest)
  obtain cn cl where p: "p = (cn, cl)" by (cases p)
  from Cons.prems(1) have rest: "resolvable cfg rest" by (simp add: resolvable_def)
  show ?case
  proof (cases "cl = ''N/A''")
    case True
    then show ?thesis using Cons.IH [OF rest Cons.prems(2)] p
      by (simp add: find_characteristics_from_concept_name_and_choice_def coded_items_def)
  next
    case False
    with Cons.prems(1) p have "list_ex (offers cn cl) cfg"
      by (simp add: resolvable_def)
    then obtain c where c: "find_in_config cn cl cfg = Some c"
      using find_in_config_None [of cn cl cfg] by auto
    from find_in_config_Some [OF c]
    have codes: "concept_name_code c = catalog_name_code cfg cn cl"
      "concept_code c = catalog_choice_code cfg cn cl"
      by (auto simp: catalog_name_code_def catalog_choice_code_def)
    let ?item' = "set_seq ''ContentSequence'' (cs @ [create_dataset_from_characteristics c]) item"
    have "add_characteristics cfg rest ?item'
        = Inr (set_seq ''ContentSequence''
            ((cs @ [create_dataset_from_characteristics c]) @ coded_items cfg rest) ?item')"
      by (rule Cons.IH [OF rest get_seq_set_seq])
    then show ?thesis using False c p Cons.prems(2) codes
      by (simp add: find_characteristics_from_concept_name_and_choice_def coded_items_def
          set_seq_set_seq create_dataset_is_coded_content_item)
  qed
qed

lemma merge_items_mergeable:
  "list_all (mergeable cfg sc) pairs \<Longrightarrow>
     merge_items cfg sc pairs
       = Inr (map (\<lambda>(item, key). with_coded_items cfg (the (map_of sc key)) item) pairs)"
proof (induction pairs)
  case Nil
  then show ?case by simp
next
  case (Cons p rest)
  obtain item key where p: "p = (item, key)" by (cases p)
  from Cons.prems p obtain entry where e: "map_of sc key = Some entry"
    and r: "resolvable cfg entry" and s: "map_of (seqs item) ''ContentSequence'' \<noteq> None"
    by (auto simp: mergeable_def split: option.splits)
  from Cons have IH: "merge_items cfg sc rest
       = Inr (map (\<lambda>(item, key). with_coded_items cfg (the (map_of sc key)) item) rest)"
    by simp
  show ?case
    using add_characteristics_resolvable [OF r content_items_get_seq [OF s]] e IH p
    by (simp add: with_coded_items_def)
qed

lemma merge_into_sr_mergeable:
  assumes "get_seq ''ContentSequence'' sr_ds = Inr root" and "5 < length root"
    and "get_seq ''ContentSequence'' (root ! 5) = Inr items"
    and "list_all (mergeable cfg sc) (zip items keys)"
  shows "merge_into_sr cfg sc keys sr_ds
    = Inr (set_seq ''ContentSequence''
        (root[5 := set_seq ''ContentSequence''
           (map (\<lambda>(item, key). with_coded_items cfg (the (map_of sc key)) item) (zip items keys)
            @ drop (length keys) items) (root ! 5)]) sr_ds)"
  using assms merge_items_mergeable [OF assms(4)] by (simp add: merge_into_sr_def)

lemma merge_characteristics_mergeable:
  assumes "dcmread (files st) seg_path = Inr seg_ds"
    and "get_seq ''SegmentSequence'' seg_ds = Inr segs"
    and "length segs = length (segment_characteristics st)"
    and "dcmread (files st) sr_path = Inr sr_ds"
    and "get_seq ''ContentSequence'' sr_ds = Inr root" and "5 < length root"
    and "get_seq ''ContentSequence'' (root ! 5) = Inr items"
    and "list_all (mergeable (characteristics_config st) (segment_characteristics st))
           (zip items (sort (map fst (segment_characteristics st))))"
  shows "merge_characteristics st seg_path sr_path
    = (Inr sr_path,
       st\<lparr>files := (files st)(sr_path \<mapsto> Dicom (set_seq ''ContentSequence''
        (root[5 := set_seq ''ContentSequence''
           (map (\<lambda>(item, key). with_coded_items (characteristics_config st)
                   (the (map_of (segment_characteristics st) key)) item)
              (zip items (sort (map fst (segment_characteristics st))))
            @ drop (length (segment_characteristics st)) items) (root ! 5)]) sr_ds))\<rparr>)"
  using assms(1-4) merge_into_sr_mergeable [OF assms(5-8)]
  by (simp add: merge_characteristics_def)

lemma length_coded_items:
  "length (coded_items cfg entry) = length (filter (\<lambda>(cn, cl). cl \<noteq> ''N/A'') entry)"
  by (simp add: coded_items_def)

lemma createDICOMSR_reaches_merge:
  "reaches_merge env st completed ex \<Longrightarrow>
     createDICOMSR env st seg_path completed
       = merge_characteristics (after_cli env ex st) seg_path (outputSRPath ex)"
  by (auto simp: reaches_merge_def createDICOMSR_def split: sum.splits)

lemma after_cli_fields [simp]:
  "segment_characteristics (after_cli env ex st) = segment_characteristics st"
  "characteristics_config (after_cli env ex st) = characteristics_config st"
  "dicomSegmentationExporter (after_cli env ex st) = dicomSegmentationExporter st"
  "calls (after_cli env ex st) = calls st"
  by (simp_all add: after_cli_def)

lemma createDICOMSR_merges:
  assumes "reaches_merge env st completed ex"
    and "dcmread (files (after_cli env ex st)) seg_path = Inr seg_ds"
    and "get_seq ''SegmentSequence'' seg_ds = Inr segs"
    and "length segs = length (segment_characteristics st)"
    and "dcmread (files (after_cli env ex st)) (outputSRPath ex) = Inr sr_ds"
    and "get_seq ''ContentSequence'' sr_ds = Inr root" and "5 < length root"
    and "get_seq ''ContentSequence'' (root ! 5) = Inr items"
    and "list_all (mergeable (characteristics_config st) (segment_characteristics st))
           (zip items (sort (map fst (segment_characteristics st))))"
  shows "createDICOMSR env st seg_path completed
    = (Inr (outputSRPath ex),
       (after_cli env ex st)\<lparr>files := (files (after_cli env ex st))(outputSRPath ex \<mapsto>
          Dicom (set_seq ''ContentSequence''
            (root[5 := set_seq ''ContentSequence''
               (merged_items (characteristics_config st) (segment_characteristics st) items)
               (root ! 5)]) sr_ds))\<rparr>)"
proof -
  have "merge_characteristics (after_cli env ex st) seg_path (outputSRPath ex)
    = (Inr (outputSRPath ex),
       (after_cli env ex st)\<lparr>files := (files (after_cli env ex st))(outputSRPath ex \<mapsto>
          Dicom (set_seq ''ContentSequence''
            (root[5 := set_seq ''ContentSequence''
               (merged_items (characteristics_config st) (segment_characteristics st) items)
               (root ! 5)]) sr_ds))\<rparr>)"
    using merge_characteristics_mergeable [of "after_cli env ex st" seg_path seg_ds segs
        "outputSRPath ex" sr_ds root items] assms(2-9)
    by (simp add: merged_items_def)
  with createDICOMSR_reaches_merge [OF assms(1)] show ?thesis by simp
qed

lemma merged_items_length: "length (merged_items cfg sc items) = length items"
  by (simp add: merged_items_def)

lemma merged_items_paired:
  "n < length items \<Longrightarrow> n < length sc \<Longrightarrow>
     merged_items cfg sc items ! n
       = with_coded_items cfg (the (map_of sc (sort (map fst sc) ! n))) (items ! n)"
  by (simp add: merged_items_def nth_append)

lemma merged_items_unpaired:
  "length sc \<le> n \<Longrightarrow> n < length items \<Longrightarrow> merged_items cfg sc items ! n = items ! n"
  by (simp add: merged_items_def nth_append min_def)

lemma zip_take_right: "zip xs (take (length xs) ys) = zip xs ys"
  by (induction xs ys rule: list_induct2') auto

lemma merged_items_short:
  "length items \<le> length sc \<Longrightarrow>
     merged_items cfg sc items
       = map (\<lambda>(item, key). with_coded_items cfg (the (map_of sc key)) item)
           (zip items (take (length items) (sort (map fst sc))))"
  by (simp add: merged_items_def zip_take_right)

text \<open>
  Claim C1, as amended. \<open>createDICOMSR\<close> gets to the merge, the segmentation file
  has as many segment records as the store has entries, the report has a container at
  index 5 of its root content sequence, and every pair of the zip of the container's
  content items (in document order) with the store's keys (in ascending order) can be
  merged: the item has a content sequence and every entry of the key's dictionary other
  than \<open>N/A\<close> resolves in the catalogue. Then the function returns the path of the
  report, the report file is rewritten with new per-segment items, and each paired item
  is the old one with its content sequence extended by the coded items of that key's
  dictionary, and nothing else changed: its plain elements and its other sequences are
  those of the old item. The coded items are one for each entry other than \<open>N/A\<close>, in
  the order of the dictionary, each the coded content item of the data model
  (\<open>CONTAINS\<close>, \<open>CODE\<close>, and the concept-name code and the choice code of the first
  catalogue entry that has the concept name and offers the label).
\<close>
theorem matched_counts_merge_appends_coded_items:
  assumes "reaches_merge env st completed ex"
    and "dcmread (files (after_cli env ex st)) seg_path = Inr seg_ds"
    and "get_seq ''SegmentSequence'' seg_ds = Inr segs"
    and "length segs = length (segment_characteristics st)"
    and "dcmread (files (after_cli env ex st)) (outputSRPath ex) = Inr sr_ds"
    and "get_seq ''ContentSequence'' sr_ds = Inr root" and "5 < length root"
    and "get_seq ''ContentSequence'' (root ! 5) = Inr items"
    and "list_all (mergeable (characteristics_config st) (segment_characteristics st))
           (zip items (sort (map fst (segment_characteristics st))))"
  shows "\<exists>new_items.
      createDICOMSR env st seg_path completed
        = (Inr (outputSRPath ex),
           (after_cli env ex st)\<lparr>files := (files (after_cli env ex st))(outputSRPath ex \<mapsto>
              Dicom (set_seq ''ContentSequence''
                (root[5 := set_seq ''ContentSequence'' new_items (root ! 5)]) sr_ds))\<rparr>)
      \<and> length new_items = length items
      \<and> (\<forall>n. n < length items \<and> n < length (segment_characteristics st) \<longrightarrow>
            (\<exists>entry. map_of (segment_characteristics st)
                        (sort (map fst (segment_characteristics st)) ! n) = Some entry
               \<and> new_items ! n
                   = set_seq ''ContentSequence''
                       (content_items (items ! n) @ coded_items (characteristics_config st) entry)
                       (items ! n)
               \<and> length (coded_items (characteristics_config st) entry)
                   = length (filter (\<lambda>(concept_name, choice_label). choice_label \<noteq> ''N/A'') entry)
               \<and> strs (new_items ! n) = strs (items ! n)
               \<and> map_of (seqs (new_items ! n))
                   = (map_of (seqs (items ! n)))(''ContentSequence'' \<mapsto>
                        content_items (items ! n) @ coded_items (characteristics_config st) entry)))"
proof -
  let ?sc = "segment_characteristics st" and ?cfg = "characteristics_config st"
  let ?keys = "sort (map fst ?sc)"
  have paired: "\<exists>entry. map_of ?sc (?keys ! n) = Some entry
      \<and> merged_items ?cfg ?sc items ! n
          = set_seq ''ContentSequence'' (content_items (items ! n) @ coded_items ?cfg entry) (items ! n)
      \<and> length (coded_items ?cfg entry)
          = length (filter (\<lambda>(concept_name, choice_label). choice_label \<noteq> ''N/A'') entry)
      \<and> strs (merged_items ?cfg ?sc items ! n) = strs (items ! n)
      \<and> map_of (seqs (merged_items ?cfg ?sc items ! n))
          = (map_of (seqs (items ! n)))(''ContentSequence'' \<mapsto>
               content_items (items ! n) @ coded_items ?cfg entry)"
    if n: "n < length items" "n < length ?sc" for n
  proof -
    have "?keys ! n \<in> fst ` set ?sc"
      using nth_mem [of n ?keys] n by simp
    then obtain entry where e: "map_of ?sc (?keys ! n) = Some entry"
      by (auto simp: in_keys_iff)
    with merged_items_paired [OF n, of ?cfg] show ?thesis
      by (simp add: with_coded_items_def length_coded_items set_seq_elements)
  qed
  from createDICOMSR_merges [OF assms] merged_items_length [of ?cfg ?sc items] paired
  show ?thesis by blast
qed

subsection \<open>Evaluating the examples\<close>

lemmas example_defs =
  example_env_def exported_state_def example_exporter_def example_store_def stale_store_def
  unresolved_store_def
  seg_with_def report_with_def segment_item_def filler_def round_item_def shape_catalog_def
  shape_code_def round_code_def irregular_code_def silent_env_def initial_state_def

lemmas model_defs =
  reaches_merge_def getAdditionalSRInformation_def after_cli_def outputSRPath_def
  os_path_join_def dcmread_def get_seq_def set_seq_def mergeable_def resolvable_def
  content_items_def coded_items_def coded_content_item_def catalog_name_code_def
  catalog_choice_code_def offers_def

theorem matched_counts_merge_appends_coded_items_witness:
  "createDICOMSR
     (example_env (seg_with 2) (report_with [segment_item ''a'', segment_item ''b'']) ''Completed'')
     (exported_state example_store (seg_with 2)) ''/t/seg.dcm'' False
   = (Inr ''/t/sr.dcm'',
      (exported_state example_store (seg_with 2))
        \<lparr>files := [''/t/seg.dcm'' \<mapsto> Dicom (seg_with 2), ''/t/sr_meta.json'' \<mapsto> NonDicom,
                   ''/t/sr.dcm'' \<mapsto> Dicom (report_with
                      [Dataset [(''TrackingIdentifier'', ''a'')] [(''ContentSequence'', [round_item])],
                       segment_item ''b''])]\<rparr>)"
proof -
  let ?sr = "report_with [segment_item ''a'', segment_item ''b'']"
  let ?env = "example_env (seg_with 2) ?sr ''Completed''"
  let ?st = "exported_state example_store (seg_with 2)"
  let ?root = "[filler, filler, filler, filler, filler,
                Dataset [] [(''ContentSequence'', [segment_item ''a'', segment_item ''b''])]]"
  have h1: "reaches_merge ?env ?st False example_exporter"
    by (simp add: example_defs model_defs)
  have h2: "dcmread (files (after_cli ?env example_exporter ?st)) ''/t/seg.dcm'' = Inr (seg_with 2)"
    by (simp add: example_defs model_defs)
  have h3: "get_seq ''SegmentSequence'' (seg_with 2) = Inr (replicate 2 filler)"
    by (simp add: example_defs model_defs)
  have h4: "length (replicate 2 filler) = length (segment_characteristics ?st)"
    by (simp add: example_defs)
  have h5: "dcmread (files (after_cli ?env example_exporter ?st)) (outputSRPath example_exporter)
      = Inr ?sr"
    by (simp add: example_defs model_defs)
  have h6: "get_seq ''ContentSequence'' ?sr = Inr ?root"
    by (simp add: example_defs model_defs)
  have h7: "5 < length ?root" by simp
  have h8: "get_seq ''ContentSequence'' (?root ! 5) = Inr [segment_item ''a'', segment_item ''b'']"
    by (simp add: model_defs)
  have h9: "list_all (mergeable (characteristics_config ?st) (segment_characteristics ?st))
      (zip [segment_item ''a'', segment_item ''b''] (sort (map fst (segment_characteristics ?st))))"
    by (simp add: example_defs model_defs)
  from matched_counts_merge_appends_coded_items [OF h1 h2 h3 h4 h5 h6 h7 h8 h9]
  obtain new_items where
    r: "createDICOMSR ?env ?st ''/t/seg.dcm'' False
        = (Inr (outputSRPath example_exporter),
           (after_cli ?env example_exporter ?st)\<lparr>files :=
              (files (after_cli ?env example_exporter ?st))(outputSRPath example_exporter \<mapsto>
                 Dicom (set_seq ''ContentSequence''
                   (?root[5 := set_seq ''ContentSequence'' new_items (?root ! 5)]) ?sr))\<rparr>)"
    and len: "length new_items = length [segment_item ''a'', segment_item ''b'']"
    and each: "\<forall>n. n < length [segment_item ''a'', segment_item ''b'']
            \<and> n < length (segment_characteristics ?st) \<longrightarrow>
            (\<exists>entry. map_of (segment_characteristics ?st)
                        (sort (map fst (segment_characteristics ?st)) ! n) = Some entry
               \<and> new_items ! n
                   = set_seq ''ContentSequence''
                       (content_items ([segment_item ''a'', segment_item ''b''] ! n)
                        @ coded_items (characteristics_config ?st) entry)
                       ([segment_item ''a'', segment_item ''b''] ! n)
               \<and> length (coded_items (characteristics_config ?st) entry)
                   = length (filter (\<lambda>(concept_name, choice_label). choice_label \<noteq> ''N/A'') entry))"
    by blast
  from each [rule_format, of 0] have n0: "new_items ! 0
      = Dataset [(''TrackingIdentifier'', ''a'')] [(''ContentSequence'', [round_item])]"
    by (simp add: example_defs model_defs)
  from each [rule_format, of 1] have n1: "new_items ! 1 = segment_item ''b''"
    by (simp add: example_defs model_defs)
  from len n0 n1 have "new_items
      = [Dataset [(''TrackingIdentifier'', ''a'')] [(''ContentSequence'', [round_item])],
         segment_item ''b'']"
    by (auto simp: length_Suc_conv numeral_2_eq_2)
  with r show ?thesis
    by (simp add: example_defs model_defs)
qed

text \<open>
  Claim C1 as it was stated fails: equal counts do not make the merge succeed. The
  segmentation file has two segment records and the store two entries, but segment 12
  carries the label \<open>Oval\<close>, which the catalogue does not have, and the lookup ends
  \<open>createDICOMSR\<close> with a \<open>ValueError\<close>.
\<close>
theorem matched_counts_merge_fails_counterexample:
  "get_seq ''SegmentSequence'' (seg_with 2) = Inr (replicate 2 filler)
   \<and> length (replicate 2 filler)
       = length (segment_characteristics (exported_state stale_store (seg_with 2)))
   \<and> fst (createDICOMSR
        (example_env (seg_with 2) (report_with [segment_item ''a'', segment_item ''b'']) ''Completed'')
        (exported_state stale_store (seg_with 2)) ''/t/seg.dcm'' False)
     = Inl (Exc ValueError
         [PStr ''Concept name code (CodeMeaning=Shape) with choices Oval not found''])"
  by (simp add: example_defs model_defs createDICOMSR_def merge_characteristics_def
      merge_into_sr_def find_characteristics_from_concept_name_and_choice_def
      not_found_message_def)

text \<open>
  Claim C2. When \<open>createDICOMSR\<close> gets to the merge and the segment sequence of the
  segmentation file is not as long as the store, the function raises the \<open>ValueError\<close>
  of line 793, which is how the code signals the consistency fault, with the message
  \<open>Number of segmentation (..) in SEG DICOM != Number of segmentation charateristics (..)\<close>.
  The state is the one the process left: no file has been written since. Nothing is
  assumed about the report file, which may even be missing, so the exception comes
  before the report is read.
\<close>
theorem count_mismatch_raises_before_report_is_read:
  assumes "reaches_merge env st completed ex"
    and "dcmread (files (after_cli env ex st)) seg_path = Inr seg_ds"
    and "get_seq ''SegmentSequence'' seg_ds = Inr segs"
    and "length segs \<noteq> length (segment_characteristics st)"
  shows "createDICOMSR env st seg_path completed
    = (Inl (Exc ValueError
         [PStr (''Number of segmentation ('' @ str_nat (len_dataset seg_ds)
                @ '') in SEG DICOM != Number of segmentation charateristics (''
                @ str_nat (length (segment_characteristics st)) @ '')'')]),
       after_cli env ex st)"
  using assms(2-4) createDICOMSR_reaches_merge [OF assms(1), of seg_path]
  by (simp add: merge_characteristics_def count_mismatch_message_def)

theorem count_mismatch_raises_before_report_is_read_witness:
  "createDICOMSR silent_env (exported_state example_store (seg_with 3)) ''/t/seg.dcm'' False
    = (Inl (Exc ValueError
         [PStr ''Number of segmentation (2) in SEG DICOM != Number of segmentation charateristics (2)'']),
       (exported_state example_store (seg_with 3))
         \<lparr>files := [''/t/seg.dcm'' \<mapsto> Dicom (seg_with 3), ''/t/sr_meta.json'' \<mapsto> NonDicom]\<rparr>)
   \<and> [''/t/seg.dcm'' \<mapsto> Dicom (seg_with 3), ''/t/sr_meta.json'' \<mapsto> NonDicom] ''/t/sr.dcm'' = None"
proof -
  let ?st = "exported_state example_store (seg_with 3)"
  have h1: "reaches_merge silent_env ?st False example_exporter"
    by (simp add: example_defs model_defs)
  have h2: "dcmread (files (after_cli silent_env example_exporter ?st)) ''/t/seg.dcm''
      = Inr (seg_with 3)"
    by (simp add: example_defs model_defs)
  have h3: "get_seq ''SegmentSequence'' (seg_with 3) = Inr (replicate 3 filler)"
    by (simp add: example_defs model_defs)
  have h4: "length (replicate 3 filler) \<noteq> length (segment_characteristics ?st)"
    by (simp add: example_defs)
  from count_mismatch_raises_before_report_is_read [OF h1 h2 h3 h4] show ?thesis
    by (simp add: example_defs model_defs len_dataset_def digit_char_def)
qed

text \<open>
  Claim C10, as amended. The only count compared with the store is that of the segment
  sequence. When \<open>createDICOMSR\<close> gets to the merge, the counts of segment records and
  store entries agree, the report has a container at index 5, and every pair of the zip
  can be merged (the item has a content sequence and the entries of the paired key
  resolve), then, whatever the number of per-segment content items of the report,
  \<open>createDICOMSR\<close> returns the path and writes the report with as many per-segment
  items as before. When the report has no more items than the store has keys, only the
  first keys, as many as there are items, are used: nothing is assumed of the
  dictionaries of the remaining, highest keys, which are not applied. When the report
  has more items, those past the last key are unchanged.
\<close>
theorem report_item_count_is_not_checked:
  assumes "reaches_merge env st completed ex"
    and "dcmread (files (after_cli env ex st)) seg_path = Inr seg_ds"
    and "get_seq ''SegmentSequence'' seg_ds = Inr segs"
    and "length segs = length (segment_characteristics st)"
    and "dcmread (files (after_cli env ex st)) (outputSRPath ex) = Inr sr_ds"
    and "get_seq ''ContentSequence'' sr_ds = Inr root" and "5 < length root"
    and "get_seq ''ContentSequence'' (root ! 5) = Inr items"
    and "list_all (mergeable (characteristics_config st) (segment_characteristics st))
           (zip items (sort (map fst (segment_characteristics st))))"
  shows "createDICOMSR env st seg_path completed
      = (Inr (outputSRPath ex),
         (after_cli env ex st)\<lparr>files := (files (after_cli env ex st))(outputSRPath ex \<mapsto>
            Dicom (set_seq ''ContentSequence''
              (root[5 := set_seq ''ContentSequence''
                 (merged_items (characteristics_config st) (segment_characteristics st) items)
                 (root ! 5)]) sr_ds))\<rparr>)
    \<and> length (merged_items (characteristics_config st) (segment_characteristics st) items)
        = length items
    \<and> (length items \<le> length (segment_characteristics st) \<longrightarrow>
          merged_items (characteristics_config st) (segment_characteristics st) items
            = map (\<lambda>(item, key). with_coded_items (characteristics_config st)
                     (the (map_of (segment_characteristics st) key)) item)
                (zip items (take (length items) (sort (map fst (segment_characteristics st))))))
    \<and> (\<forall>n. length (segment_characteristics st) \<le> n \<and> n < length items \<longrightarrow>
          merged_items (characteristics_config st) (segment_characteristics st) items ! n
            = items ! n)"
  using createDICOMSR_merges [OF assms] merged_items_length merged_items_short
    merged_items_unpaired
  by blast

theorem report_item_count_is_not_checked_witness:
  "createDICOMSR
     (example_env (seg_with 2) (report_with [segment_item ''a'']) ''Completed'')
     (exported_state stale_store (seg_with 2)) ''/t/seg.dcm'' False
   = (Inr ''/t/sr.dcm'',
      (exported_state stale_store (seg_with 2))
        \<lparr>files := [''/t/seg.dcm'' \<mapsto> Dicom (seg_with 2), ''/t/sr_meta.json'' \<mapsto> NonDicom,
                   ''/t/sr.dcm'' \<mapsto> Dicom (report_with
                      [Dataset [(''TrackingIdentifier'', ''a'')]
                         [(''ContentSequence'', [round_item])]])]\<rparr>)
   \<and> createDICOMSR
     (example_env (seg_with 2)
        (report_with [segment_item ''a'', segment_item ''b'', segment_item ''c'']) ''Completed'')
     (exported_state example_store (seg_with 2)) ''/t/seg.dcm'' False
   = (Inr ''/t/sr.dcm'',
      (exported_state example_store (seg_with 2))
        \<lparr>files := [''/t/seg.dcm'' \<mapsto> Dicom (seg_with 2), ''/t/sr_meta.json'' \<mapsto> NonDicom,
                   ''/t/sr.dcm'' \<mapsto> Dicom (report_with
                      [Dataset [(''TrackingIdentifier'', ''a'')]
                         [(''ContentSequence'', [round_item])],
                       segment_item ''b'', segment_item ''c''])]\<rparr>)"
proof -
  let ?sr1 = "report_with [segment_item ''a'']"
  let ?env1 = "example_env (seg_with 2) ?sr1 ''Completed''"
  let ?st1 = "exported_state stale_store (seg_with 2)"
  let ?root1 = "[filler, filler, filler, filler, filler,
                 Dataset [] [(''ContentSequence'', [segment_item ''a''])]]"
  let ?sr2 = "report_with [segment_item ''a'', segment_item ''b'', segment_item ''c'']"
  let ?env2 = "example_env (seg_with 2) ?sr2 ''Completed''"
  let ?st2 = "exported_state example_store (seg_with 2)"
  let ?root2 = "[filler, filler, filler, filler, filler,
                 Dataset [] [(''ContentSequence'',
                   [segment_item ''a'', segment_item ''b'', segment_item ''c''])]]"
  have seg: "get_seq ''SegmentSequence'' (seg_with 2) = Inr (replicate 2 filler)"
    by (simp add: example_defs model_defs)
  have a1: "reaches_merge ?env1 ?st1 False example_exporter"
    by (simp add: example_defs model_defs)
  have a2: "dcmread (files (after_cli ?env1 example_exporter ?st1)) ''/t/seg.dcm'' = Inr (seg_with 2)"
    by (simp add: example_defs model_defs)
  have a4: "length (replicate 2 filler) = length (segment_characteristics ?st1)"
    by (simp add: example_defs)
  have a5: "dcmread (files (after_cli ?env1 example_exporter ?st1)) (outputSRPath example_exporter)
      = Inr ?sr1"
    by (simp add: example_defs model_defs)
  have a6: "get_seq ''ContentSequence'' ?sr1 = Inr ?root1"
    by (simp add: example_defs model_defs)
  have a7: "5 < length ?root1" by simp
  have a8: "get_seq ''ContentSequence'' (?root1 ! 5) = Inr [segment_item ''a'']"
    by (simp add: model_defs)
  have a9: "list_all (mergeable (characteristics_config ?st1) (segment_characteristics ?st1))
      (zip [segment_item ''a''] (sort (map fst (segment_characteristics ?st1))))"
    by (simp add: example_defs model_defs)
  have b1: "reaches_merge ?env2 ?st2 False example_exporter"
    by (simp add: example_defs model_defs)
  have b2: "dcmread (files (after_cli ?env2 example_exporter ?st2)) ''/t/seg.dcm'' = Inr (seg_with 2)"
    by (simp add: example_defs model_defs)
  have b4: "length (replicate 2 filler) = length (segment_characteristics ?st2)"
    by (simp add: example_defs)
  have b5: "dcmread (files (after_cli ?env2 example_exporter ?st2)) (outputSRPath example_exporter)
      = Inr ?sr2"
    by (simp add: example_defs model_defs)
  have b6: "get_seq ''ContentSequence'' ?sr2 = Inr ?root2"
    by (simp add: example_defs model_defs)
  have b7: "5 < length ?root2" by simp
  have b8: "get_seq ''ContentSequence'' (?root2 ! 5)
      = Inr [segment_item ''a'', segment_item ''b'', segment_item ''c'']"
    by (simp add: model_defs)
  have b9: "list_all (mergeable (characteristics_config ?st2) (segment_characteristics ?st2))
      (zip [segment_item ''a'', segment_item ''b'', segment_item ''c'']
         (sort (map fst (segment_characteristics ?st2))))"
    by (simp add: example_defs model_defs)
  from report_item_count_is_not_checked [OF a1 a2 seg a4 a5 a6 a7 a8 a9]
  have first: "createDICOMSR ?env1 ?st1 ''/t/seg.dcm'' False
      = (Inr ''/t/sr.dcm'',
         ?st1\<lparr>files := [''/t/seg.dcm'' \<mapsto> Dicom (seg_with 2), ''/t/sr_meta.json'' \<mapsto> NonDicom,
                   ''/t/sr.dcm'' \<mapsto> Dicom (report_with
                      [Dataset [(''TrackingIdentifier'', ''a'')]
                         [(''ContentSequence'', [round_item])]])]\<rparr>)"
    by (simp add: example_defs model_defs merged_items_def with_coded_items_def)
  from report_item_count_is_not_checked [OF b1 b2 seg b4 b5 b6 b7 b8 b9]
  have second: "createDICOMSR ?env2 ?st2 ''/t/seg.dcm'' False
      = (Inr ''/t/sr.dcm'',
         ?st2\<lparr>files := [''/t/seg.dcm'' \<mapsto> Dicom (seg_with 2), ''/t/sr_meta.json'' \<mapsto> NonDicom,
                   ''/t/sr.dcm'' \<mapsto> Dicom (report_with
                      [Dataset [(''TrackingIdentifier'', ''a'')]
                         [(''ContentSequence'', [round_item])],
                       segment_item ''b'', segment_item ''c''])]\<rparr>)"
    by (simp add: example_defs model_defs merged_items_def with_coded_items_def)
  from first second show ?thesis by (rule conjI)
qed

text \<open>
  Claim C10 as it was stated fails: a report with fewer items than the store has keys
  does not make the merge succeed by itself. The segmentation file has two segment
  records and the store two entries, the report has one per-segment item, and that item
  is paired with the lowest key, 7, whose label \<open>Oval\<close> the catalogue does not have:
  \<open>createDICOMSR\<close> ends with the \<open>ValueError\<close> of the lookup.
\<close>

theorem short_report_merge_fails_counterexample:
  "length [segment_item ''a'']
     < length (segment_characteristics (exported_state unresolved_store (seg_with 2)))
   \<and> get_seq ''SegmentSequence'' (seg_with 2) = Inr (replicate 2 filler)
   \<and> length (replicate 2 filler)
       = length (segment_characteristics (exported_state unresolved_store (seg_with 2)))
   \<and> fst (createDICOMSR
        (example_env (seg_with 2) (report_with [segment_item ''a'']) ''Completed'')
        (exported_state unresolved_store (seg_with 2)) ''/t/seg.dcm'' False)
     = Inl (Exc ValueError
         [PStr ''Concept name code (CodeMeaning=Shape) with choices Oval not found''])"
  by (simp add: example_defs model_defs createDICOMSR_def merge_characteristics_def
      merge_into_sr_def find_characteristics_from_concept_name_and_choice_def
      not_found_message_def)

text \<open>
  Claim C8. The pruned store has exactly the items of the old store whose key is among
  the current label values, each with the dictionary it had. The same holds for the
  whole of \<open>updateSegmentationCharacteristics\<close>: a key that is not current is gone, a
  current key that was in the store keeps its dictionary, and only a current key that
  was not in the store gets the empty one.
\<close>
theorem prune_removes_exactly_stale_entries:
  "set (prune_segment_characteristics segment_ids sc)
     = {(s, c). (s, c) \<in> set sc \<and> s \<in> set segment_ids}
   \<and> map_of (prune_segment_characteristics segment_ids sc) s
     = (if s \<in> set segment_ids then map_of sc s else None)
   \<and> map_of (updateSegmentationCharacteristics segments sc) s
     = (if s \<in> GetLabelValue ` set segments
        then (case map_of sc s of Some c \<Rightarrow> Some c | None \<Rightarrow> Some [])
        else None)"
  by (auto simp: set_prune map_of_prune updateSegmentationCharacteristics_def
      map_of_create_missing split: option.splits)

section \<open>Properties of saving a report\<close>

lemma merge_characteristics_exporter:
  "dicomSegmentationExporter (snd (merge_characteristics st seg_path sr_path))
     = dicomSegmentationExporter st"
  "calls (snd (merge_characteristics st seg_path sr_path)) = calls st"
  by (simp_all add: merge_characteristics_def Let_def split: sum.splits)

lemma createDICOMSR_exporter:
  "dicomSegmentationExporter (snd (createDICOMSR env st seg_path completed))
     = dicomSegmentationExporter st"
  by (simp add: createDICOMSR_def merge_characteristics_exporter
      split: option.splits sum.splits)

lemma createSEG_exporter:
  "new_exporter env = Inr ex \<Longrightarrow>
     dicomSegmentationExporter (snd (createSEG env st)) = Some ex"
  by (simp add: createSEG_def Let_def split: export_outcome.splits)

lemma save_body_exporter:
  assumes "new_exporter env = Inr ex"
  shows "dicomSegmentationExporter (snd (save_body env st completed)) = Some ex"
proof (cases "createSEG env st")
  case (Pair r st1)
  with createSEG_exporter [OF assms, of st] have e1: "dicomSegmentationExporter st1 = Some ex"
    by simp
  show ?thesis
  proof (cases r)
    case (Inl e)
    with Pair e1 show ?thesis by (simp add: save_body_def)
  next
    case (Inr dcmSegPath)
    obtain r2 st2 where c: "createDICOMSR env st1 dcmSegPath completed = (r2, st2)"
      by (cases "createDICOMSR env st1 dcmSegPath completed")
    with createDICOMSR_exporter [of env st1 dcmSegPath completed] e1
    have "dicomSegmentationExporter st2 = Some ex" by simp
    with Pair Inr c show ?thesis by (cases r2) (simp_all add: save_body_def)
  qed
qed

text \<open>
  Claim C9. Once the metadata is confirmed, every way out of \<open>saveReport\<close> goes
  through \<open>cleanupTemporaryData\<close>, applied to the state in which the body of the
  \<open>try\<close> statement ended: when it returns success, when it returns a caught error, and
  when an exception that is not caught leaves the function, whichever of \<open>createSEG\<close>,
  \<open>createDICOMSR\<close> or the merge raised it. Afterwards the widget holds no exporter,
  and when the exporter of this save was constructed, its \<open>cleanup\<close> is the last
  call made.
\<close>
theorem cleanup_runs_on_every_outcome:
  assumes "retrieveMetaDataFromUser env = Some md" and "md \<noteq> []"
  shows "snd (saveReport env st completed)
      = cleanupTemporaryData (snd (save_body env (st\<lparr>metadata := Some md\<rparr>) completed))
    \<and> dicomSegmentationExporter (snd (saveReport env st completed)) = None
    \<and> (\<forall>ex. new_exporter env = Inr ex \<longrightarrow>
          calls (snd (saveReport env st completed))
            = calls (snd (save_body env (st\<lparr>metadata := Some md\<rparr>) completed))
              @ [ExporterCleanup ex])"
proof -
  let ?body = "save_body env (st\<lparr>metadata := Some md\<rparr>) completed"
  have final: "snd (saveReport env st completed) = cleanupTemporaryData (snd ?body)"
    using assms by (cases ?body) (simp add: saveReport_def split: sum.splits)
  have none: "dicomSegmentationExporter (cleanupTemporaryData s) = None" for s
    by (simp add: cleanupTemporaryData_def split: option.splits)
  have log: "calls (cleanupTemporaryData (snd ?body)) = calls (snd ?body) @ [ExporterCleanup ex]"
    if "new_exporter env = Inr ex" for ex
    using save_body_exporter [OF that, of "st\<lparr>metadata := Some md\<rparr>" completed]
    by (simp add: cleanupTemporaryData_def)
  from final none log show ?thesis by simp
qed

text \<open>
  Claim C3 asks that a process status other than \<open>Completed\<close> be returned to the
  caller of \<open>saveReport\<close> as a failed save with a message. The code aborts the save
  but does not return: \<open>createDICOMSR\<close> raises a plain \<open>Exception\<close>, the \<open>except\<close>
  clause of \<open>saveReport\<close> names \<open>RuntimeError\<close>, \<open>ValueError\<close> and
  \<open>AttributeError\<close> only, and the exception leaves \<open>saveReport\<close>. This is what the
  code does whenever the segmentation was exported and the inputs of the report were
  gathered.
\<close>
theorem encoder_fault_escapes_saveReport:
  assumes "retrieveMetaDataFromUser env = Some md" and "md \<noteq> []"
    and "map_of md ''ContentCreatorName'' = Some creator"
    and "map_of md ''ClinicalTrialTimePointID'' = Some time_point"
    and "new_exporter env = Inr ex" and "export_outcome env = Exported"
    and "series_collaborators env = None" and "measurements_collaborator env = None"
    and "cli_status env \<noteq> ''Completed''"
  shows "fst (saveReport env st completed)
      = Inl (Exc Exception [PStr ''tid1500writer CLI did not complete cleanly''])
    \<and> \<not> catches [RuntimeError, ValueError, AttributeError]
          (Exc Exception [PStr ''tid1500writer CLI did not complete cleanly''])"
  using assms
  by (simp add: saveReport_def save_body_def createSEG_def createDICOMSR_def Let_def
      getAdditionalSRInformation_def catches_def isinstance_def)

lemmas save_defs =
  saveReport_def save_body_def createSEG_def createDICOMSR_def merge_characteristics_def
  merge_into_sr_def cleanupTemporaryData_def catches_def isinstance_def
  find_characteristics_from_concept_name_and_choice_def count_mismatch_message_def
  len_dataset_def digit_char_def Let_def

theorem encoder_fault_escapes_saveReport_witness:
  "fst (saveReport
          (example_env (seg_with 2) (report_with [segment_item ''a'', segment_item ''b'']) ''Failed'')
          (initial_state example_store) False)
     = Inl (Exc Exception [PStr ''tid1500writer CLI did not complete cleanly''])"
proof -
  let ?env = "example_env (seg_with 2) (report_with [segment_item ''a'', segment_item ''b'']) ''Failed''"
  let ?md = "[(''ContentCreatorName'', ''Reader''), (''ClinicalTrialTimePointID'', ''1'')]"
  have h1: "retrieveMetaDataFromUser ?env = Some ?md" by (simp add: example_env_def)
  have h2: "?md \<noteq> []" by simp
  have h3: "map_of ?md ''ContentCreatorName'' = Some ''Reader''" by simp
  have h4: "map_of ?md ''ClinicalTrialTimePointID'' = Some ''1''" by simp
  have h5: "new_exporter ?env = Inr example_exporter" by (simp add: example_env_def)
  have h6: "export_outcome ?env = Exported" by (simp add: example_env_def)
  have h7: "series_collaborators ?env = None" by (simp add: example_env_def)
  have h8: "measurements_collaborator ?env = None" by (simp add: example_env_def)
  have h9: "cli_status ?env \<noteq> ''Completed''" by (simp add: example_env_def)
  from encoder_fault_escapes_saveReport [OF h1 h2 h3 h4 h5 h6 h7 h8 h9] show ?thesis
    by (rule conjunct1)
qed

text \<open>
  The faults raised as \<open>ValueError\<close> are caught and returned as a failed save with
  the arguments of the exception.
\<close>

lemma consistency_fault_is_returned_example:
  "fst (saveReport
          (example_env (seg_with 3) (report_with [segment_item ''a'', segment_item ''b'']) ''Completed'')
          (initial_state example_store) False)
     = Inr (False, PTuple [PStr
         ''Number of segmentation (2) in SEG DICOM != Number of segmentation charateristics (2)''])"
  by (simp add: save_defs example_defs model_defs)

lemma lookup_fault_is_returned_example:
  "fst (saveReport
          (example_env (seg_with 2) (report_with [segment_item ''a'', segment_item ''b'']) ''Completed'')
          (initial_state stale_store) False)
     = Inr (False, PTuple [PStr
         ''Concept name code (CodeMeaning=Shape) with choices Oval not found''])"
  by (simp add: save_defs example_defs model_defs not_found_message_def)

lemma successful_save_example:
  "fst (saveReport
          (example_env (seg_with 2) (report_with [segment_item ''a'', segment_item ''b'']) ''Completed'')
          (initial_state example_store) False)
     = Inr (True, PNone)"
  by (simp add: save_defs example_defs model_defs)

text \<open>
  The three ways out at work: a save that succeeds, one whose consistency fault is
  returned, and one whose process fails and whose exception leaves \<open>saveReport\<close>;
  the exporter is gone after each.
\<close>

theorem cleanup_runs_on_every_outcome_witness:
  "fst (saveReport
       (example_env (seg_with 2) (report_with [segment_item ''a'', segment_item ''b'']) ''Completed'')
       (initial_state example_store) False) = Inr (True, PNone)
   \<and> dicomSegmentationExporter (snd (saveReport
       (example_env (seg_with 2) (report_with [segment_item ''a'', segment_item ''b'']) ''Completed'')
       (initial_state example_store) False)) = None
   \<and> fst (saveReport
       (example_env (seg_with 3) (report_with [segment_item ''a'', segment_item ''b'']) ''Completed'')
       (initial_state example_store) False)
     = Inr (False, PTuple [PStr
         ''Number of segmentation (2) in SEG DICOM != Number of segmentation charateristics (2)''])
   \<and> dicomSegmentationExporter (snd (saveReport
       (example_env (seg_with 3) (report_with [segment_item ''a'', segment_item ''b'']) ''Completed'')
       (initial_state example_store) False)) = None
   \<and> fst (saveReport
       (example_env (seg_with 2) (report_with [segment_item ''a'', segment_item ''b'']) ''Failed'')
       (initial_state example_store) False)
     = Inl (Exc Exception [PStr ''tid1500writer CLI did not complete cleanly''])
   \<and> dicomSegmentationExporter (snd (saveReport
       (example_env (seg_with 2) (report_with [segment_item ''a'', segment_item ''b'']) ''Failed'')
       (initial_state example_store) False)) = None"
proof -
  let ?md = "[(''ContentCreatorName'', ''Reader''), (''ClinicalTrialTimePointID'', ''1'')]"
  have h1: "retrieveMetaDataFromUser (example_env seg sr status) = Some ?md" for seg sr status
    by (simp add: example_env_def)
  have h2: "?md \<noteq> []" by simp
  note t = cleanup_runs_on_every_outcome [OF h1 h2, THEN conjunct2, THEN conjunct1]
  have failed: "fst (saveReport
       (example_env (seg_with 2) (report_with [segment_item ''a'', segment_item ''b'']) ''Failed'')
       (initial_state example_store) False)
     = Inl (Exc Exception [PStr ''tid1500writer CLI did not complete cleanly''])"
    by (simp add: save_defs example_defs model_defs)
  from t [of "seg_with 2" _ "''Completed''"] t [of "seg_with 3" _ "''Completed''"]
    t [of "seg_with 2" _ "''Failed''"]
    successful_save_example consistency_fault_is_returned_example failed
  show ?thesis by simp
qed

end
